theory Spec2Isabelle
  imports Main
begin

section \<open>C strings and std::string\<close>

text \<open>
  Both source files build a \<^verbatim>\<open>std::string\<close> from a string literal and hand out its
  \<^verbatim>\<open>c_str()\<close>. A C string is a character array closed by the NUL character; a
  \<^verbatim>\<open>std::string\<close> holds the characters without the terminator. The allocation done by
  the constructor of \<^verbatim>\<open>std::string\<close> is taken to succeed: its failure is a C++ exception
  that ends the call without a return value, and neither function has a handler for it.
\<close>

definition NUL :: char where
  "NUL = CHR 0x00"

definition string_literal :: "string \<Rightarrow> char list" where
  \<comment> \<open>the array a C++ string literal denotes: its characters and the terminator\<close>
  "string_literal s = s @ [NUL]"

definition std_string :: "char list \<Rightarrow> string" where
  \<comment> \<open>\<^verbatim>\<open>std::string(const char*)\<close>: the characters before the first NUL\<close>
  "std_string bytes = takeWhile (\<lambda>c. c \<noteq> NUL) bytes"

definition c_str :: "string \<Rightarrow> char list" where
  \<comment> \<open>\<^verbatim>\<open>std::string::c_str()\<close>: the characters followed by the terminator\<close>
  "c_str s = s @ [NUL]"


section \<open>The managed-bridge accessor (android/app/src/main/cpp/native-lib.cpp)\<close>

text \<open>
  The JNI environment is the managed runtime seen from native code. Its \<^verbatim>\<open>jni.h\<close> is not
  part of the repository, so the one operation the accessor calls is modelled here.
  The managed heap is the list of the \<^verbatim>\<open>java.lang.String\<close> objects created so far, a
  reference being the position of its object; \<open>heap_free\<close> is the number of characters
  the heap can still take; \<open>pending_oom\<close> is the out-of-memory signal of the runtime.
\<close>

datatype jstring = JNull | JRef nat

type_synonym jobject = nat

record JNIEnv =
  heap :: "string list"
  heap_free :: nat
  pending_oom :: bool

definition NewStringUTF :: "JNIEnv \<Rightarrow> char list \<Rightarrow> jstring \<times> JNIEnv" where
  \<comment> \<open>Modelled from the spec: the marshalling of a native string into the managed runtime's
      string representation (\<^verbatim>\<open>JNIEnv::NewStringUTF\<close>, declared in \<^verbatim>\<open>jni.h\<close>, which is not
      among the sources). It reads the C string up to its terminator and creates a new
      string object; its only failure is exhaustion of the managed heap, which yields the
      null reference and raises the runtime's out-of-memory signal. The characters the
      accessor passes are 7-bit, for which the modified UTF-8 encoding is the identity.\<close>
  "NewStringUTF env bytes =
     (let cs = takeWhile (\<lambda>c. c \<noteq> NUL) bytes in
      if length cs \<le> heap_free env
      then (JRef (length (heap env)),
            env\<lparr>heap := heap env @ [cs], heap_free := heap_free env - length cs\<rparr>)
      else (JNull, env\<lparr>pending_oom := True\<rparr>))"

definition Java_com_example_fluttersampleachitecture_NativeKeyProvider_getSecretKey ::
    "JNIEnv \<Rightarrow> jobject \<Rightarrow> jstring \<times> JNIEnv" where
  "Java_com_example_fluttersampleachitecture_NativeKeyProvider_getSecretKey env this =
     (let key = std_string (string_literal ''abcdefhijklmnopqrstuvwxyzabcdefghijklmnop'')
      in NewStringUTF env (c_str key))"

definition jstring_chars :: "JNIEnv \<Rightarrow> jstring \<Rightarrow> string option" where
  \<comment> \<open>what the managed caller reads from a reference: the characters of the object it
      denotes; nothing from the null reference or from a reference to no object\<close>
  "jstring_chars env r =
     (case r of
        JNull \<Rightarrow> None
      | JRef i \<Rightarrow> if i < length (heap env) then Some (heap env ! i) else None)"

definition managed_result :: "JNIEnv \<Rightarrow> jobject \<Rightarrow> string option" where
  \<comment> \<open>one invocation as the managed caller observes it: the characters of the string it
      receives, \<open>None\<close> when it receives the null reference\<close>
  "managed_result env this =
     (let (r, env') = Java_com_example_fluttersampleachitecture_NativeKeyProvider_getSecretKey env this
      in jstring_chars env' r)"


section \<open>The plain-native accessor (ios/Runner/SecurityUtils.cpp)\<close>

text \<open>
  The state of the native process, as far as the accessor touches it: \<open>memory\<close> is the
  list of the allocated character arrays, a pointer being the position of its array;
  \<open>key\<close> is the function-local static \<^verbatim>\<open>key\<close> of \<^verbatim>\<open>getSecretKey\<close>, \<open>None\<close> until the
  first call runs its initialiser and afterwards the address of its character buffer.
  The static is a \<^verbatim>\<open>std::string\<close>, an object with a destructor: the call that
  initialises it also registers that destructor to run when the process exits, and
  \<open>at_exit\<close> is the list of the handlers so registered, the latest first.
\<close>

datatype exit_handler = Destroy_key

record process =
  memory :: "char list list"
  key :: "nat option"
  at_exit :: "exit_handler list"

definition getSecretKey :: "process \<Rightarrow> nat \<times> process" where
  "getSecretKey p =
     (case key p of
        None \<Rightarrow>
          (let a = length (memory p)
           in (a, p\<lparr>memory := memory p @ [c_str (std_string (string_literal ''my32lengthsupersecretnooneknows!!''))],
                    key := Some a, at_exit := Destroy_key # at_exit p\<rparr>))
      | Some a \<Rightarrow> (a, p))"

definition cstring_at :: "process \<Rightarrow> nat \<Rightarrow> string option" where
  \<comment> \<open>what a caller reads through a \<^verbatim>\<open>const char*\<close>: the characters before the
      terminator; nothing from a pointer to no array or to an unterminated one\<close>
  "cstring_at p a =
     (if a < length (memory p) \<and> NUL \<in> set (memory p ! a)
      then Some (takeWhile (\<lambda>c. c \<noteq> NUL) (memory p ! a))
      else None)"

definition native_result :: "process \<Rightarrow> string option" where
  \<comment> \<open>one invocation as the caller observes it: the C string behind the returned pointer\<close>
  "native_result p = (let (a, p') = getSecretKey p in cstring_at p' a)"

definition fresh :: "char list list \<Rightarrow> process" where
  \<comment> \<open>a process in which the accessor has not been called yet\<close>
  "fresh m = \<lparr>memory = m, key = None, at_exit = []\<rparr>"

definition key_valid :: "process \<Rightarrow> bool" where
  \<comment> \<open>the static is either uninitialised or owns a buffer holding the literal\<close>
  "key_valid p =
     (case key p of
        None \<Rightarrow> True
      | Some a \<Rightarrow> a < length (memory p) \<and>
                 memory p ! a = c_str ''my32lengthsupersecretnooneknows!!'')"

fun calls :: "nat \<Rightarrow> process \<Rightarrow> nat list \<times> process" where
  \<comment> \<open>\<open>n\<close> successive invocations: the pointers they return and the final state\<close>
  "calls 0 p = ([], p)"
| "calls (Suc n) p =
     (let (a, p') = getSecretKey p; (as, p'') = calls n p' in (a # as, p''))"

fun init_count :: "nat \<Rightarrow> process \<Rightarrow> nat" where
  \<comment> \<open>how many of \<open>n\<close> successive invocations run the initialiser of the static\<close>
  "init_count 0 p = 0"
| "init_count (Suc n) p =
     (if key p = None then 1 else 0) + init_count n (snd (getSecretKey p))"

text \<open>
  The end of the process. The handlers registered for exit run, the latest first. The
  destructor of the static releases its character buffer: nothing can be read behind
  that address any more, which the empty array stands for. It leaves the guard of the
  static as it is, so a call made afterwards (by code that still runs during exit, such
  as a handler registered before the first call of the accessor) does not initialise
  the static again and hands out the address of the released buffer.
\<close>

fun run_handler :: "exit_handler \<Rightarrow> process \<Rightarrow> process" where
  "run_handler Destroy_key p =
     (case key p of
        None \<Rightarrow> p
      | Some a \<Rightarrow> p\<lparr>memory := (memory p)[a := []]\<rparr>)"

definition exit_process :: "process \<Rightarrow> process" where
  "exit_process p = fold run_handler (at_exit p) (p\<lparr>at_exit := []\<rparr>)"

definition destructor_pending :: "process \<Rightarrow> bool" where
  \<comment> \<open>an initialised static has its destructor registered for exit\<close>
  "destructor_pending p =
     (case key p of
        None \<Rightarrow> True
      | Some a \<Rightarrow> Destroy_key \<in> set (at_exit p))"


section \<open>Facts about the two functions\<close>

lemma android_key_chars:
  "std_string (string_literal ''abcdefhijklmnopqrstuvwxyzabcdefghijklmnop'') = ''abcdefhijklmnopqrstuvwxyzabcdefghijklmnop''"
  by (simp add: std_string_def string_literal_def NUL_def)

lemma android_key_c_str:
  "takeWhile (\<lambda>c. c \<noteq> NUL) (c_str ''abcdefhijklmnopqrstuvwxyzabcdefghijklmnop'') = ''abcdefhijklmnopqrstuvwxyzabcdefghijklmnop''"
  by (simp add: c_str_def NUL_def)

lemma ios_key_chars:
  "std_string (string_literal ''my32lengthsupersecretnooneknows!!'') = ''my32lengthsupersecretnooneknows!!''"
  by (simp add: std_string_def string_literal_def NUL_def)

lemma ios_key_c_str:
  "takeWhile (\<lambda>c. c \<noteq> NUL) (c_str ''my32lengthsupersecretnooneknows!!'') = ''my32lengthsupersecretnooneknows!!''"
  by (simp add: c_str_def NUL_def)

lemma NUL_in_c_str: "NUL \<in> set (c_str s)"
  by (simp add: c_str_def)

lemma managed_success:
  assumes "41 \<le> heap_free env"
  shows "Java_com_example_fluttersampleachitecture_NativeKeyProvider_getSecretKey env this =
           (JRef (length (heap env)),
            env\<lparr>heap := heap env @ [''abcdefhijklmnopqrstuvwxyzabcdefghijklmnop''], heap_free := heap_free env - 41\<rparr>)"
  using assms
  by (simp add: Java_com_example_fluttersampleachitecture_NativeKeyProvider_getSecretKey_def NewStringUTF_def android_key_chars android_key_c_str)

lemma managed_failure:
  assumes "heap_free env < 41"
  shows "Java_com_example_fluttersampleachitecture_NativeKeyProvider_getSecretKey env this = (JNull, env\<lparr>pending_oom := True\<rparr>)"
  using assms
  by (simp add: Java_com_example_fluttersampleachitecture_NativeKeyProvider_getSecretKey_def NewStringUTF_def android_key_chars android_key_c_str)

lemma managed_result_success:
  assumes "41 \<le> heap_free env"
  shows "managed_result env this = Some ''abcdefhijklmnopqrstuvwxyzabcdefghijklmnop''"
  by (simp add: managed_result_def managed_success [OF assms] jstring_chars_def)

lemma managed_result_failure:
  assumes "heap_free env < 41"
  shows "managed_result env this = None"
  by (simp add: managed_result_def managed_failure [OF assms] jstring_chars_def)

lemma getSecretKey_first:
  assumes "key p = None"
  shows "getSecretKey p =
           (length (memory p),
            p\<lparr>memory := memory p @ [c_str ''my32lengthsupersecretnooneknows!!''], key := Some (length (memory p)),
              at_exit := Destroy_key # at_exit p\<rparr>)"
  using assms by (simp add: getSecretKey_def Let_def ios_key_chars)

lemma getSecretKey_later:
  assumes "key p = Some a"
  shows "getSecretKey p = (a, p)"
  using assms by (simp add: getSecretKey_def)

lemma key_after_getSecretKey: "key (snd (getSecretKey p)) = Some (fst (getSecretKey p))"
  by (cases "key p") (simp_all add: getSecretKey_first getSecretKey_later)

lemma key_valid_fresh: "key_valid (fresh m)"
  by (simp add: key_valid_def fresh_def)

lemma key_valid_getSecretKey:
  assumes "key_valid p"
  shows "key_valid (snd (getSecretKey p))"
proof (cases "key p")
  case None
  then show ?thesis by (simp add: getSecretKey_first key_valid_def)
next
  case (Some a)
  with assms show ?thesis by (simp add: getSecretKey_later)
qed

lemma cstring_at_returned:
  assumes "key_valid p"
  shows "cstring_at (snd (getSecretKey p)) (fst (getSecretKey p)) = Some ''my32lengthsupersecretnooneknows!!''"
proof (cases "key p")
  case None
  then show ?thesis
    by (simp add: getSecretKey_first cstring_at_def NUL_in_c_str ios_key_c_str)
next
  case (Some a)
  with assms have "a < length (memory p)" and "memory p ! a = c_str ''my32lengthsupersecretnooneknows!!''"
    by (simp_all add: key_valid_def)
  with Some show ?thesis
    by (simp add: getSecretKey_later cstring_at_def NUL_in_c_str ios_key_c_str)
qed

lemma native_result_valid:
  assumes "key_valid p"
  shows "native_result p = Some ''my32lengthsupersecretnooneknows!!''"
  using cstring_at_returned [OF assms] by (simp add: native_result_def split_beta)

lemma calls_later:
  assumes "key p = Some a"
  shows "calls n p = (replicate n a, p)"
  using assms by (induction n) (simp_all add: getSecretKey_later)

lemma calls_Suc:
  "calls (Suc n) p = (replicate (Suc n) (fst (getSecretKey p)), snd (getSecretKey p))"
  using calls_later [OF key_after_getSecretKey, of n p] by (simp add: split_beta)

lemma key_valid_calls:
  assumes "key_valid p"
  shows "key_valid (snd (calls n p))"
proof (cases n)
  case 0
  with assms show ?thesis by simp
next
  case (Suc k)
  with assms show ?thesis by (simp add: calls_Suc key_valid_getSecretKey del: calls.simps)
qed

lemma init_count_later:
  assumes "key p = Some a"
  shows "init_count n p = 0"
  using assms by (induction n) (simp_all add: getSecretKey_later)

lemma init_count_le_1: "init_count n p \<le> 1"
proof (cases n)
  case 0
  then show ?thesis by simp
next
  case (Suc k)
  then show ?thesis
    using init_count_later [OF key_after_getSecretKey, of k p] by simp
qed

lemma destructor_pending_fresh: "destructor_pending (fresh m)"
  by (simp add: destructor_pending_def fresh_def)

lemma destructor_pending_getSecretKey:
  assumes "destructor_pending p"
  shows "destructor_pending (snd (getSecretKey p))"
proof (cases "key p")
  case None
  then show ?thesis by (simp add: getSecretKey_first destructor_pending_def)
next
  case (Some a)
  with assms show ?thesis by (simp add: getSecretKey_later)
qed

lemma destructor_pending_later:
  assumes "key p = Some a"
  shows "destructor_pending p \<longleftrightarrow> Destroy_key \<in> set (at_exit p)"
  using assms by (simp add: destructor_pending_def)

lemma key_run_handlers: "key (fold run_handler hs q) = key q"
proof (induction hs arbitrary: q)
  case Nil
  show ?case by simp
next
  case (Cons h hs)
  have "key (run_handler h q) = key q"
    by (cases h) (simp split: option.split)
  with Cons show ?case by simp
qed

lemma memory_run_handlers:
  assumes "key q = Some a" and "hs \<noteq> []"
  shows "memory (fold run_handler hs q) = (memory q)[a := []]"
  using assms
proof (induction hs arbitrary: q)
  case Nil
  then show ?case by simp
next
  case (Cons h hs)
  have k: "key (run_handler h q) = Some a"
    using Cons.prems(1) by (cases h) simp
  have m: "memory (run_handler h q) = (memory q)[a := []]"
    using Cons.prems(1) by (cases h) simp
  show ?case
  proof (cases "hs = []")
    case True
    with m show ?thesis by simp
  next
    case False
    with Cons.IH [OF k] m show ?thesis by simp
  qed
qed

lemma key_exit_process: "key (exit_process p) = key p"
  by (simp add: exit_process_def key_run_handlers)

lemma memory_exit_process:
  assumes "key p = Some a" and "Destroy_key \<in> set (at_exit p)"
  shows "memory (exit_process p) = (memory p)[a := []]"
proof -
  from assms(2) have "at_exit p \<noteq> []" by auto
  with assms(1) show ?thesis
    by (simp add: exit_process_def memory_run_handlers)
qed

lemma cstring_at_exit_process:
  assumes "key p = Some a" and "Destroy_key \<in> set (at_exit p)"
  shows "cstring_at (exit_process p) a = None"
  by (simp add: cstring_at_def memory_exit_process [OF assms])

section \<open>The claims\<close>

subsection \<open>C1: the value of the managed-bridge accessor\<close>

text \<open>
  C1: every invocation of the managed-bridge accessor returns exactly the literal
  \<^verbatim>\<open>abcdefhijklmnopqrstuvwxyzabcdefghijklmnop\<close>. The hypothesis is the standing condition
  of the specification (its sections 4.1 and 7), the absence of memory exhaustion: the
  managed heap has room for the 41 characters to be marshalled.
\<close>

theorem managed_literal:
  assumes "41 \<le> heap_free env"
  shows "managed_result env this = Some ''abcdefhijklmnopqrstuvwxyzabcdefghijklmnop''"
  using assms by (rule managed_result_success)

theorem managed_literal_witness:
  "41 \<le> heap_free \<lparr>heap = [], heap_free = 100, pending_oom = False\<rparr> \<and>
   managed_result \<lparr>heap = [], heap_free = 100, pending_oom = False\<rparr> 0 =
     Some ''abcdefhijklmnopqrstuvwxyzabcdefghijklmnop''"
  using managed_literal [of "\<lparr>heap = [], heap_free = 100, pending_oom = False\<rparr>" 0]
  by simp

subsection \<open>C2: the value of the plain-native accessor\<close>

text \<open>
  C2: every invocation of the plain-native accessor \<^verbatim>\<open>getSecretKey\<close> returns exactly the
  literal \<^verbatim>\<open>my32lengthsupersecretnooneknows!!\<close>: the pointer it returns reads as that C
  string. An invocation happens in a state of the process in which the static is
  uninitialised or holds its literal; \<open>key_valid\<close> says so, it holds before the first call
  (\<open>key_valid_fresh\<close>) and every call keeps it (\<open>key_valid_getSecretKey\<close>).
\<close>

theorem native_literal:
  assumes "key_valid p"
  shows "native_result p = Some ''my32lengthsupersecretnooneknows!!''"
  using assms by (rule native_result_valid)

theorem native_literal_witness:
  "key_valid (fresh []) \<and>
   native_result (fresh []) = Some ''my32lengthsupersecretnooneknows!!'' \<and>
   key_valid (snd (getSecretKey (fresh []))) \<and>
   native_result (snd (getSecretKey (fresh []))) = Some ''my32lengthsupersecretnooneknows!!''"
  using native_literal [of "fresh []"]
    native_literal [of "snd (getSecretKey (fresh []))"]
  by (simp add: key_valid_fresh key_valid_getSecretKey)

subsection \<open>C3: the length of the managed-bridge value\<close>

text \<open>
  C3, as stated: the string returned by the managed-bridge accessor has 42 characters.
  The literal of the source has 41 (42 is the size of its C string with the terminator).
\<close>

theorem managed_length_counterexample:
  "map_option length (managed_result \<lparr>heap = [], heap_free = 100, pending_oom = False\<rparr> 0) = Some 41 \<and>
   map_option length (managed_result \<lparr>heap = [], heap_free = 100, pending_oom = False\<rparr> 0) \<noteq> Some 42"
  by (simp add: managed_result_success)

text \<open>
  C3, amended: every invocation of the managed-bridge accessor made while the managed heap
  has room for the string returns a string of 41 characters.
\<close>

theorem managed_length:
  assumes "41 \<le> heap_free env"
  shows "map_option length (managed_result env this) = Some 41"
  by (simp add: managed_result_success [OF assms])

theorem managed_length_witness:
  "41 \<le> heap_free \<lparr>heap = [''x''], heap_free = 41, pending_oom = False\<rparr> \<and>
   map_option length (managed_result \<lparr>heap = [''x''], heap_free = 41, pending_oom = False\<rparr> 7) = Some 41"
  using managed_length [of "\<lparr>heap = [''x''], heap_free = 41, pending_oom = False\<rparr>" 7]
  by simp

subsection \<open>C4: the length of the plain-native value\<close>

text \<open>
  C4, as stated: the string returned by the plain-native accessor has 34 characters.
  The literal of the source has 33 (34 is the size of its C string with the terminator).
\<close>

theorem native_length_counterexample:
  "map_option length (native_result (fresh [])) = Some 33 \<and>
   map_option length (native_result (fresh [])) \<noteq> Some 34"
  by (simp add: native_result_valid key_valid_fresh)

text \<open>
  C4, amended: the string returned by every invocation of the plain-native accessor
  has 33 characters.
\<close>

theorem native_length:
  assumes "key_valid p"
  shows "map_option length (native_result p) = Some 33"
  by (simp add: native_result_valid [OF assms])

theorem native_length_witness:
  "key_valid (fresh [''other'']) \<and>
   map_option length (native_result (fresh [''other''])) = Some 33"
  using native_length [of "fresh [''other'']"]
  by (simp add: key_valid_fresh)

subsection \<open>C5: every invocation returns the same value\<close>

text \<open>
  C5: for each accessor, any two invocations within one process lifetime return exactly
  the same value. Absent memory exhaustion, that is, each finding room on the managed
  heap, any two invocations of the managed-bridge accessor return strings of exactly the
  same characters, whatever the two states of the runtime are; and the invocation of the
  plain-native accessor made after any number \<open>n\<close> of earlier ones returns the pointer
  and the string that the first of them returns.
\<close>

theorem same_value:
  assumes "41 \<le> heap_free env1" and "41 \<le> heap_free env2" and "key_valid p"
  shows "managed_result env1 this1 = managed_result env2 this2 \<and>
         fst (getSecretKey (snd (calls n p))) = fst (getSecretKey p) \<and>
         native_result (snd (calls n p)) = native_result p"
proof -
  have m: "managed_result env1 this1 = managed_result env2 this2"
    by (simp add: managed_result_success assms(1,2))
  have a: "fst (getSecretKey (snd (calls n p))) = fst (getSecretKey p)"
  proof (cases n)
    case 0
    then show ?thesis by simp
  next
    case (Suc k)
    have "getSecretKey (snd (getSecretKey p)) = (fst (getSecretKey p), snd (getSecretKey p))"
      using key_after_getSecretKey by (rule getSecretKey_later)
    with Suc show ?thesis by (simp add: calls_Suc del: calls.simps)
  qed
  have r: "native_result (snd (calls n p)) = native_result p"
    by (simp add: native_result_valid assms(3) key_valid_calls)
  from m a r show ?thesis by simp
qed

theorem same_value_witness:
  "41 \<le> heap_free \<lparr>heap = [], heap_free = 100, pending_oom = False\<rparr> \<and>
   41 \<le> heap_free \<lparr>heap = [''x''], heap_free = 41, pending_oom = True\<rparr> \<and>
   key_valid (fresh []) \<and>
   managed_result \<lparr>heap = [], heap_free = 100, pending_oom = False\<rparr> 0 =
     managed_result \<lparr>heap = [''x''], heap_free = 41, pending_oom = True\<rparr> 1 \<and>
   fst (getSecretKey (snd (calls 2 (fresh [])))) = fst (getSecretKey (fresh [])) \<and>
   native_result (snd (calls 2 (fresh []))) = native_result (fresh [])"
  using same_value [of "\<lparr>heap = [], heap_free = 100, pending_oom = False\<rparr>"
      "\<lparr>heap = [''x''], heap_free = 41, pending_oom = True\<rparr>" "fresh []" 0 1 2]
  by (simp add: key_valid_fresh)

subsection \<open>C6: no side effects\<close>

text \<open>
  C6, as stated: every invocation of either accessor leaves all process-wide state other
  than the returned value unchanged, each being a pure read of an immutable constant.
  The invocation of the plain-native accessor that finds the static uninitialised is not
  a pure read: besides the buffer it returns, it sets the guard of the static and
  registers the destructor of the static among the exit handlers of the process.
\<close>

theorem no_side_effect_counterexample:
  "at_exit (fresh []) = [] \<and>
   at_exit (snd (getSecretKey (fresh []))) = [Destroy_key] \<and>
   key (fresh []) = None \<and>
   key (snd (getSecretKey (fresh []))) = Some 0 \<and>
   snd (getSecretKey (fresh [])) \<noteq> fresh []"
  by (simp add: getSecretKey_first fresh_def)

text \<open>
  C6, amended: absent memory exhaustion, an invocation of the managed-bridge accessor
  changes the managed runtime only by creating the string object it returns: the objects
  that existed are unchanged, the new object is the last one, the room left shrinks by
  its 41 characters and no signal is raised. An invocation of the plain-native accessor
  changes no character array that existed; made after the static has been initialised it
  changes nothing at all; the one that initialises the static allocates the buffer the
  returned pointer denotes, sets the guard of the static, registers its destructor for
  the exit of the process, and changes nothing else.
\<close>

theorem no_side_effect:
  assumes "41 \<le> heap_free env"
  shows "Java_com_example_fluttersampleachitecture_NativeKeyProvider_getSecretKey env this =
           (JRef (length (heap env)),
            env\<lparr>heap := heap env @ [''abcdefhijklmnopqrstuvwxyzabcdefghijklmnop''], heap_free := heap_free env - 41\<rparr>) \<and>
         take (length (memory p)) (memory (snd (getSecretKey p))) = memory p \<and>
         (key p = Some (fst (getSecretKey p)) \<and> snd (getSecretKey p) = p \<or>
          key p = None \<and>
          snd (getSecretKey p) =
            p\<lparr>memory := memory p @ [c_str ''my32lengthsupersecretnooneknows!!''], key := Some (fst (getSecretKey p)),
              at_exit := Destroy_key # at_exit p\<rparr>)"
proof -
  have n: "take (length (memory p)) (memory (snd (getSecretKey p))) = memory p \<and>
         (key p = Some (fst (getSecretKey p)) \<and> snd (getSecretKey p) = p \<or>
          key p = None \<and>
          snd (getSecretKey p) =
            p\<lparr>memory := memory p @ [c_str ''my32lengthsupersecretnooneknows!!''], key := Some (fst (getSecretKey p)),
              at_exit := Destroy_key # at_exit p\<rparr>)"
  proof (cases "key p")
    case None
    then show ?thesis by (simp add: getSecretKey_first)
  next
    case (Some a)
    then show ?thesis by (simp add: getSecretKey_later)
  qed
  show ?thesis
    using managed_success [OF assms, of this] n by simp
qed

theorem no_side_effect_witness:
  "41 \<le> heap_free \<lparr>heap = [''x''], heap_free = 50, pending_oom = False\<rparr> \<and>
   Java_com_example_fluttersampleachitecture_NativeKeyProvider_getSecretKey \<lparr>heap = [''x''], heap_free = 50, pending_oom = False\<rparr> 0 =
     (JRef 1, \<lparr>heap = [''x'', ''abcdefhijklmnopqrstuvwxyzabcdefghijklmnop''], heap_free = 9, pending_oom = False\<rparr>) \<and>
   take 1 (memory (snd (getSecretKey (fresh [''other''])))) = [''other''] \<and>
   snd (getSecretKey (fresh [''other''])) =
     \<lparr>memory = [''other'', c_str ''my32lengthsupersecretnooneknows!!''], key = Some 1, at_exit = [Destroy_key]\<rparr> \<and>
   snd (getSecretKey (snd (getSecretKey (fresh [''other''])))) = snd (getSecretKey (fresh [''other'']))"
  using no_side_effect [of "\<lparr>heap = [''x''], heap_free = 50, pending_oom = False\<rparr>" 0 "fresh [''other'']"]
    no_side_effect [of "\<lparr>heap = [''x''], heap_free = 50, pending_oom = False\<rparr>" 0
      "snd (getSecretKey (fresh [''other'']))"]
  by (simp add: fresh_def key_after_getSecretKey getSecretKey_first)

subsection \<open>C7: no error absent memory exhaustion\<close>

text \<open>
  C7: when no memory exhaustion occurs, that is, when the managed heap has room for the
  string to be marshalled, every invocation of either accessor returns a valid string and
  takes no error branch: the managed-bridge accessor returns a reference that is not null,
  raises no out-of-memory signal, and the reference denotes a string; the pointer the
  plain-native accessor returns denotes a terminated C string.
\<close>

theorem no_error:
  assumes "41 \<le> heap_free env" and "key_valid p"
  shows "(\<exists>i. fst (Java_com_example_fluttersampleachitecture_NativeKeyProvider_getSecretKey env this) = JRef i) \<and>
         pending_oom (snd (Java_com_example_fluttersampleachitecture_NativeKeyProvider_getSecretKey env this)) = pending_oom env \<and>
         (\<exists>s. managed_result env this = Some s) \<and>
         (\<exists>s. native_result p = Some s)"
  by (simp add: managed_success [OF assms(1)] managed_result_success [OF assms(1)]
      native_result_valid [OF assms(2)])

theorem no_error_witness:
  "41 \<le> heap_free \<lparr>heap = [], heap_free = 41, pending_oom = False\<rparr> \<and>
   key_valid (fresh []) \<and>
   (\<exists>i. fst (Java_com_example_fluttersampleachitecture_NativeKeyProvider_getSecretKey \<lparr>heap = [], heap_free = 41, pending_oom = False\<rparr> 0) = JRef i) \<and>
   pending_oom (snd (Java_com_example_fluttersampleachitecture_NativeKeyProvider_getSecretKey \<lparr>heap = [], heap_free = 41, pending_oom = False\<rparr> 0)) = False \<and>
   (\<exists>s. managed_result \<lparr>heap = [], heap_free = 41, pending_oom = False\<rparr> 0 = Some s) \<and>
   (\<exists>s. native_result (fresh []) = Some s)"
  using no_error [of "\<lparr>heap = [], heap_free = 41, pending_oom = False\<rparr>" "fresh []" 0]
  by (simp add: key_valid_fresh)

subsection \<open>C8: one static object behind every returned pointer\<close>

text \<open>
  C8, as stated: every call of the plain-native accessor returns a reference to one and
  the same process-wide static object, initialised at most once and never destroyed for
  the remainder of the process lifetime, and the returned reference remains valid across
  calls. The static is a \<^verbatim>\<open>std::string\<close> with static storage duration: its destructor
  runs among the exit handlers of the process, while other code can still run. Below,
  the accessor is called once, the exit handlers run, and the accessor is called again:
  the second call returns the pointer of the first, and nothing can be read behind it.
\<close>

theorem one_static_object_counterexample:
  "native_result (fresh []) = Some ''my32lengthsupersecretnooneknows!!'' \<and>
   fst (getSecretKey (exit_process (snd (getSecretKey (fresh []))))) = fst (getSecretKey (fresh [])) \<and>
   cstring_at (exit_process (snd (getSecretKey (fresh [])))) (fst (getSecretKey (fresh []))) = None \<and>
   native_result (exit_process (snd (getSecretKey (fresh [])))) = None"
proof -
  let ?p = "snd (getSecretKey (fresh []))"
  let ?a = "fst (getSecretKey (fresh []))"
  have k: "key ?p = Some ?a"
    by (rule key_after_getSecretKey)
  have d: "Destroy_key \<in> set (at_exit ?p)"
    by (simp add: getSecretKey_first fresh_def)
  have ke: "key (exit_process ?p) = Some ?a"
    using k by (simp add: key_exit_process)
  have g: "getSecretKey (exit_process ?p) = (?a, exit_process ?p)"
    using ke by (rule getSecretKey_later)
  have c: "cstring_at (exit_process ?p) ?a = None"
    using k d by (rule cstring_at_exit_process)
  have r: "native_result (exit_process ?p) = None"
    by (simp only: native_result_def g Let_def split_conv c)
  have f: "native_result (fresh []) = Some ''my32lengthsupersecretnooneknows!!''"
    by (simp add: native_result_valid key_valid_fresh)
  from f g c r show ?thesis by simp
qed

text \<open>
  C8, amended: every call of the plain-native accessor made before the exit handlers of
  the process run returns a reference to one and the same process-wide static object,
  initialised at most once and neither destroyed nor reinitialised by any call, and the
  reference remains valid across those calls; the buffer stays the static's own, no call
  hands a buffer of its own to the caller, and it is the destructor of the static that
  releases it, when the process exits: from then on the reference is no longer valid.
  For any state \<open>p\<close> in which the static is uninitialised or alive, and any number \<open>n\<close>
  of further calls: the \<open>n + 1\<close> successive calls all return the pointer the first of them
  returns, and the state they end in is the state the first call has left; that pointer
  is the buffer the static holds; it reads as the literal; at most one of the calls runs
  the initialiser; and once the exit handlers have run, nothing can be read behind it.
\<close>

theorem one_static_object:
  assumes "key_valid p" and "destructor_pending p"
  shows "calls (Suc n) p = (replicate (Suc n) (fst (getSecretKey p)), snd (getSecretKey p)) \<and>
         key (snd (getSecretKey p)) = Some (fst (getSecretKey p)) \<and>
         cstring_at (snd (calls (Suc n) p)) (fst (getSecretKey p)) =
           Some ''my32lengthsupersecretnooneknows!!'' \<and>
         init_count (Suc n) p \<le> 1 \<and>
         cstring_at (exit_process (snd (calls (Suc n) p))) (fst (getSecretKey p)) = None"
proof -
  have c: "calls (Suc n) p = (replicate (Suc n) (fst (getSecretKey p)), snd (getSecretKey p))"
    by (rule calls_Suc)
  have k: "key (snd (getSecretKey p)) = Some (fst (getSecretKey p))"
    by (rule key_after_getSecretKey)
  have r: "cstring_at (snd (calls (Suc n) p)) (fst (getSecretKey p)) =
           Some ''my32lengthsupersecretnooneknows!!''"
    using cstring_at_returned [OF assms(1)] by (simp only: c snd_conv)
  have i: "init_count (Suc n) p \<le> 1"
    by (rule init_count_le_1)
  have d: "Destroy_key \<in> set (at_exit (snd (getSecretKey p)))"
    using destructor_pending_getSecretKey [OF assms(2)]
    by (simp add: destructor_pending_later [OF k])
  have e: "cstring_at (exit_process (snd (calls (Suc n) p))) (fst (getSecretKey p)) = None"
    using cstring_at_exit_process [OF k d] by (simp only: c snd_conv)
  from c k r i e show ?thesis by blast
qed

theorem one_static_object_witness:
  "key_valid (fresh [''other'']) \<and>
   destructor_pending (fresh [''other'']) \<and>
   calls 3 (fresh [''other'']) =
     ([1, 1, 1],
      \<lparr>memory = [''other'', c_str ''my32lengthsupersecretnooneknows!!''], key = Some 1, at_exit = [Destroy_key]\<rparr>) \<and>
   cstring_at (snd (calls 3 (fresh [''other'']))) 1 = Some ''my32lengthsupersecretnooneknows!!'' \<and>
   init_count 3 (fresh [''other'']) \<le> 1 \<and>
   cstring_at (exit_process (snd (calls 3 (fresh [''other''])))) 1 = None"
proof -
  have v: "key_valid (fresh [''other''])"
    by (rule key_valid_fresh)
  have d: "destructor_pending (fresh [''other''])"
    by (rule destructor_pending_fresh)
  have g: "getSecretKey (fresh [''other'']) =
      (1, \<lparr>memory = [''other'', c_str ''my32lengthsupersecretnooneknows!!''], key = Some 1, at_exit = [Destroy_key]\<rparr>)"
    by (simp add: getSecretKey_first fresh_def)
  have f: "fst (getSecretKey (fresh [''other''])) = 1"
    by (simp add: g)
  have e: "snd (getSecretKey (fresh [''other''])) =
      \<lparr>memory = [''other'', c_str ''my32lengthsupersecretnooneknows!!''], key = Some 1, at_exit = [Destroy_key]\<rparr>"
    by (simp add: g)
  have n: "Suc 2 = 3"
    by simp
  have l: "replicate 3 (1::nat) = [1, 1, 1]"
    by (simp add: numeral_3_eq_3)
  note t = one_static_object [OF v d, of 2, unfolded n f e l]
  from v d t show ?thesis by blast
qed

subsection \<open>C9: the two accessors return different values\<close>

text \<open>
  C9: the string an invocation of the managed-bridge accessor returns and the string an
  invocation of the plain-native accessor returns are never equal, although the comment
  in \<^verbatim>\<open>SecurityUtils.cpp\<close> speaks of the same secret key as on Android.
\<close>

theorem accessors_differ:
  assumes "key_valid p"
  shows "managed_result env this \<noteq> native_result p"
proof (cases "41 \<le> heap_free env")
  case True
  then show ?thesis
    by (simp add: managed_result_success native_result_valid [OF assms])
next
  case False
  then have "heap_free env < 41" by simp
  then show ?thesis
    by (simp add: managed_result_failure native_result_valid [OF assms])
qed

theorem accessors_differ_witness:
  "key_valid (fresh []) \<and>
   managed_result \<lparr>heap = [], heap_free = 100, pending_oom = False\<rparr> 0 =
     Some ''abcdefhijklmnopqrstuvwxyzabcdefghijklmnop'' \<and>
   native_result (fresh []) = Some ''my32lengthsupersecretnooneknows!!'' \<and>
   managed_result \<lparr>heap = [], heap_free = 100, pending_oom = False\<rparr> 0 \<noteq> native_result (fresh [])"
  using accessors_differ [of "fresh []" "\<lparr>heap = [], heap_free = 100, pending_oom = False\<rparr>" 0]
  by (simp add: key_valid_fresh managed_result_success native_result_valid)

end
